theory Spec2Isabelle
  imports Complex_Main
begin

section \<open>Python values used by \<^verbatim>\<open>ai.py\<close>\<close>

text \<open>
  A Python \<^verbatim>\<open>str\<close> is a sequence of Unicode code points; it is modelled as a list of
  natural numbers, one per code point. \<open>lit\<close> turns an ASCII literal of the source into such
  a list. Durations are Python floats; they are idealised as real numbers, so that floor
  division is the mathematical floor of the quotient.
\<close>

type_synonym pystr = "nat list"

definition lit :: "string \<Rightarrow> pystr" where
  "lit s = map of_char s"

text \<open>Truth value of an \<^verbatim>\<open>Optional[str]\<close>: \<^verbatim>\<open>None\<close> and the empty string are false.\<close>

definition truthy :: "pystr option \<Rightarrow> bool" where
  "truthy s = (case s of None \<Rightarrow> False | Some t \<Rightarrow> t \<noteq> [])"

text \<open>Decimal rendering of an \<^verbatim>\<open>int\<close> inside an f-string (\<^verbatim>\<open>f"{rate_pct}"\<close>).\<close>

fun str_nat :: "nat \<Rightarrow> pystr" where
  "str_nat n = (if n < 10 then [48 + n] else str_nat (n div 10) @ [48 + n mod 10])"

declare str_nat.simps [simp del]

definition str_int :: "int \<Rightarrow> pystr" where
  "str_int i = (if i < 0 then 45 # str_nat (nat (- i)) else str_nat (nat i))"

text \<open>
  \<^verbatim>\<open>str.isspace\<close> on one code point, and \<^verbatim>\<open>str.strip()\<close>, which removes the leading and
  the trailing run of such code points.
\<close>

definition isspace :: "nat \<Rightarrow> bool" where
  "isspace c \<longleftrightarrow>
     (9 \<le> c \<and> c \<le> 13) \<or> (28 \<le> c \<and> c \<le> 32) \<or> c = 133 \<or> c = 160 \<or> c = 5760 \<or>
     (8192 \<le> c \<and> c \<le> 8202) \<or> c = 8232 \<or> c = 8233 \<or> c = 8239 \<or> c = 8287 \<or> c = 12288"

definition strip :: "pystr \<Rightarrow> pystr" where
  "strip s = rev (dropWhile isspace (rev (dropWhile isspace s)))"

text \<open>
  \<^verbatim>\<open>str.lower()\<close>, restricted to the ASCII letters: no other code point has one of the
  letters of \<^verbatim>\<open>.mp4\<close>, \<^verbatim>\<open>.mov\<close>, \<^verbatim>\<open>.webm\<close> as its lower case, which is all the
  script uses \<^verbatim>\<open>lower\<close> for.
\<close>

definition lower :: "pystr \<Rightarrow> pystr" where
  "lower s = map (\<lambda>c. if 65 \<le> c \<and> c \<le> 90 then c + 32 else c) s"

text \<open>
  \<^verbatim>\<open>tmp_dir / name\<close> and \<^verbatim>\<open>Path.suffix\<close> of \<^verbatim>\<open>pathlib\<close>: the suffix is taken from the
  final component, from its last dot on, unless that dot is the first or the last character.
\<close>

definition path_join :: "pystr \<Rightarrow> pystr \<Rightarrow> pystr" where
  "path_join d n = d @ lit ''/'' @ n"

definition final_component :: "pystr \<Rightarrow> pystr" where
  "final_component p = rev (takeWhile (\<lambda>c. c \<noteq> 47) (rev p))"

definition suffix :: "pystr \<Rightarrow> pystr" where
  "suffix p =
     (let name = final_component p;
          after = rev (takeWhile (\<lambda>c. c \<noteq> 46) (rev name))
      in if 46 \<notin> set name then []
         else let i = length name - length after - 1
              in if 0 < i \<and> i < length name - 1 then drop i name else [])"

section \<open>The collaborating libraries\<close>

text \<open>
  The speech service (\<^verbatim>\<open>edge_tts\<close>), the media library (\<^verbatim>\<open>moviepy\<close>), the imaging
  library (\<^verbatim>\<open>PIL\<close>) and the form framework (\<^verbatim>\<open>streamlit\<close>) are not part of the
  repository. Each primitive the script calls is modelled by its effect on the attributes
  the script reads (duration, size, frame rate), on the files it reads and writes, and on a
  trace of the calls made. What a primitive does that the script cannot observe is left to
  the environment: whether the encoder accepts a clip, and what the speech service returns.
\<close>

datatype pixels = Fill nat nat nat | Raster nat

record image =
  im_width :: nat
  im_height :: nat
  im_pixels :: pixels

datatype content =
    AudioData real
  | VideoData real nat nat real
  | ImageData image
  | Bytes nat

datatype error =
    IOError pystr
  | ZeroDivisionError
  | TypeError
  | ValueError
  | EncoderError
  | SynthesisError

record audio_clip =
  a_filename :: pystr
  a_duration :: real

datatype frames =
    Footage pystr
  | Still pystr image
  | Chain "frames list"
  | Cut frames real real
  | Resized frames nat nat

record video_clip =
  v_frames :: frames
  v_duration :: "real option"
  v_size :: "nat \<times> nat"
  v_fps :: "real option"
  v_audio :: "audio_clip option"

record communicate =
  c_text :: pystr
  c_voice :: pystr

datatype handle = AudioHandle pystr | VideoHandle pystr | ImageHandle pystr

datatype event =
    Open handle
  | ImageSave pystr image
  | WriteVideofile pystr video_clip real pystr pystr
  | CloseVideo video_clip
  | CloseAudio audio_clip
  | Save communicate pystr
  | StError pystr
  | StSuccess pystr
  | StVideo pystr
  | StDownload pystr pystr pystr pystr

record world =
  files :: "pystr \<Rightarrow> content option"
  trace :: "event list"

record env =
  encoder_ok :: "video_clip \<Rightarrow> bool"
  tts_service :: "communicate \<Rightarrow> real option"
  tmp_stem :: pystr
  tmp_dir :: pystr

definition emit :: "event \<Rightarrow> world \<Rightarrow> world" where
  "emit ev w = w\<lparr>trace := trace w @ [ev]\<rparr>"

definition write_file :: "pystr \<Rightarrow> content \<Rightarrow> world \<Rightarrow> world" where
  "write_file p c w = w\<lparr>files := (files w)(p \<mapsto> c)\<rparr>"

subsection \<open>\<^verbatim>\<open>moviepy\<close> and \<^verbatim>\<open>PIL\<close>\<close>

text \<open>Opening a file as a clip fails unless the file holds media of that kind.\<close>

definition AudioFileClip :: "pystr \<Rightarrow> world \<Rightarrow> (error + audio_clip) \<times> world" where
  "AudioFileClip p w =
     (case files w p of
        Some (AudioData d) \<Rightarrow>
          (Inr \<lparr>a_filename = p, a_duration = d\<rparr>, emit (Open (AudioHandle p)) w)
      | _ \<Rightarrow> (Inl (IOError p), w))"

definition VideoFileClip :: "pystr \<Rightarrow> world \<Rightarrow> (error + video_clip) \<times> world" where
  "VideoFileClip p w =
     (case files w p of
        Some (VideoData d wd ht f) \<Rightarrow>
          (Inr \<lparr>v_frames = Footage p, v_duration = Some d, v_size = (wd, ht),
                v_fps = Some f, v_audio = None\<rparr>,
           emit (Open (VideoHandle p)) w)
      | _ \<Rightarrow> (Inl (IOError p), w))"

definition ImageClip :: "pystr \<Rightarrow> world \<Rightarrow> (error + video_clip) \<times> world" where
  "ImageClip p w =
     (case files w p of
        Some (ImageData im) \<Rightarrow>
          (Inr \<lparr>v_frames = Still p im, v_duration = None,
                v_size = (im_width im, im_height im), v_fps = None, v_audio = None\<rparr>,
           emit (Open (ImageHandle p)) w)
      | _ \<Rightarrow> (Inl (IOError p), w))"

text \<open>
  \<^verbatim>\<open>concatenate_videoclips\<close> plays the clips one after the other: the durations add up,
  the size and the frame rate are the largest among the clips. It fails on an empty list
  and on a clip without a duration.
\<close>

definition concatenate_videoclips :: "video_clip list \<Rightarrow> error + video_clip" where
  "concatenate_videoclips clips =
     (if clips = [] then Inl ValueError
      else if None \<in> set (map v_duration clips) then Inl TypeError
      else Inr \<lparr>v_frames = Chain (map v_frames clips),
                v_duration = Some (sum_list (map (\<lambda>c. the (v_duration c)) clips)),
                v_size = (Max (set (map (\<lambda>c. fst (v_size c)) clips)),
                          Max (set (map (\<lambda>c. snd (v_size c)) clips))),
                v_fps = (let fs = [f. Some f \<leftarrow> map v_fps clips]
                         in if fs = [] then None else Some (Max (set fs))),
                v_audio = None\<rparr>)"

text \<open>
  \<^verbatim>\<open>clip.subclip(t_start, t_end)\<close> with times counted from the start of the clip, as the
  script calls it: the result lasts \<open>t_end - t_start\<close>; a start beyond the end of the clip
  is refused.
\<close>

definition subclip :: "video_clip \<Rightarrow> real \<Rightarrow> real \<Rightarrow> error + video_clip" where
  "subclip c t_start t_end =
     (if (case v_duration c of None \<Rightarrow> False | Some d \<Rightarrow> t_start > d) then Inl ValueError
      else Inr (c\<lparr>v_frames := Cut (v_frames c) t_start t_end,
                  v_duration := Some (t_end - t_start)\<rparr>))"

definition set_duration :: "video_clip \<Rightarrow> real \<Rightarrow> video_clip" where
  "set_duration c d = c\<lparr>v_duration := Some d\<rparr>"

text \<open>
  \<^verbatim>\<open>clip.resize(height=h)\<close>: the new size is \<^verbatim>\<open>[w * height / h, height]\<close>, truncated to
  whole pixels.
\<close>

definition resize :: "video_clip \<Rightarrow> nat \<Rightarrow> error + video_clip" where
  "resize c height =
     (case v_size c of (w, h) \<Rightarrow>
        if h = 0 then Inl ZeroDivisionError
        else Inr (c\<lparr>v_frames := Resized (v_frames c) (w * height div h) height,
                    v_size := (w * height div h, height)\<rparr>))"

definition set_audio :: "video_clip \<Rightarrow> audio_clip \<Rightarrow> video_clip" where
  "set_audio c a = c\<lparr>v_audio := Some a\<rparr>"

text \<open>
  \<^verbatim>\<open>clip.write_videofile(path, fps=..., codec=..., audio_codec=...)\<close>: the frame rate is the
  argument, or the clip's own when none is given. The call needs a duration and a frame
  rate; whether the encoder then succeeds is the environment's. The file written lasts as
  long as the clip.
\<close>

definition write_videofile ::
  "video_clip \<Rightarrow> pystr \<Rightarrow> real option \<Rightarrow> pystr \<Rightarrow> pystr \<Rightarrow> env \<Rightarrow> world \<Rightarrow> (error + unit) \<times> world" where
  "write_videofile c path fps codec audio_codec e w =
     (case v_duration c of
        None \<Rightarrow> (Inl ValueError, w)
      | Some d \<Rightarrow>
          (case (case fps of Some f \<Rightarrow> Some f | None \<Rightarrow> v_fps c) of
             None \<Rightarrow> (Inl ValueError, w)
           | Some f \<Rightarrow>
               (let w1 = emit (WriteVideofile path c f codec audio_codec) w
                in if encoder_ok e c
                   then (Inr (), write_file path (VideoData d (fst (v_size c)) (snd (v_size c)) f) w1)
                   else (Inl EncoderError, w1))))"

definition close_video :: "video_clip \<Rightarrow> world \<Rightarrow> world" where
  "close_video c w = emit (CloseVideo c) w"

definition close_audio :: "audio_clip \<Rightarrow> world \<Rightarrow> world" where
  "close_audio a w = emit (CloseAudio a) w"

text \<open>\<^verbatim>\<open>Image.new("RGB", size, color=...)\<close>, \<^verbatim>\<open>img.save(name)\<close> and the name of a
  \<^verbatim>\<open>NamedTemporaryFile(suffix=..., delete=False)\<close>.\<close>

definition Image_new :: "nat \<times> nat \<Rightarrow> nat \<times> nat \<times> nat \<Rightarrow> image" where
  "Image_new sz color =
     (case (sz, color) of ((w, h), (r, g, b)) \<Rightarrow>
        \<lparr>im_width = w, im_height = h, im_pixels = Fill r g b\<rparr>)"

definition image_save :: "image \<Rightarrow> pystr \<Rightarrow> world \<Rightarrow> world" where
  "image_save img name w = write_file name (ImageData img) (emit (ImageSave name img) w)"

definition NamedTemporaryFile :: "env \<Rightarrow> pystr \<Rightarrow> pystr" where
  "NamedTemporaryFile e sfx = tmp_stem e @ sfx"

subsection \<open>\<^verbatim>\<open>edge_tts\<close>\<close>

text \<open>
  \<^verbatim>\<open>edge_tts.Communicate(text, voice=voice)\<close> is the request handed to the speech service;
  \<^verbatim>\<open>communicate.save(outfile)\<close> sends it and writes the audio received.
\<close>

definition Communicate :: "pystr \<Rightarrow> pystr \<Rightarrow> communicate" where
  "Communicate text voice = \<lparr>c_text = text, c_voice = voice\<rparr>"

definition save :: "communicate \<Rightarrow> pystr \<Rightarrow> env \<Rightarrow> world \<Rightarrow> (error + unit) \<times> world" where
  "save comm outfile e w =
     (let w1 = emit (Save comm outfile) w
      in case tts_service e comm of
           None \<Rightarrow> (Inl SynthesisError, w1)
         | Some d \<Rightarrow> (Inr (), write_file outfile (AudioData d) w1))"

section \<open>The speech synthesis adapter\<close>

text \<open>\<^verbatim>\<open>_synthesize\<close> (lines 39 to 52) and \<^verbatim>\<open>synthesize_tts\<close> (lines 55 to 58).\<close>

definition synthesize ::
  "pystr \<Rightarrow> pystr \<Rightarrow> pystr \<Rightarrow> pystr option \<Rightarrow> pystr option \<Rightarrow> env \<Rightarrow> world \<Rightarrow> (error + unit) \<times> world" where
  \<open>synthesize text voice outfile rate pitch e w =
     (let prosody0 = [];
          prosody1 = (case rate of
                        None \<Rightarrow> prosody0
                      | Some r \<Rightarrow> if r \<noteq> [] then prosody0 @ lit '' rate="'' @ r @ lit ''"''
                                  else prosody0);
          prosody2 = (case pitch of
                        None \<Rightarrow> prosody1
                      | Some p \<Rightarrow> if p \<noteq> [] then prosody1 @ lit '' pitch="'' @ p @ lit ''"''
                                  else prosody1);
          communicate =
            (if prosody2 \<noteq> [] then
               Communicate
                 (lit ''<speak version="1.0" xmlns="http://www.w3.org/2001/10/synthesis"><voice name="''
                    @ voice @ lit ''"><prosody'' @ prosody2 @ lit ''>'' @ text
                    @ lit ''</prosody></voice></speak>'')
                 voice
             else Communicate text voice)
      in save communicate outfile e w)\<close>

definition synthesize_tts ::
  "pystr \<Rightarrow> pystr \<Rightarrow> pystr \<Rightarrow> int \<Rightarrow> int \<Rightarrow> env \<Rightarrow> world \<Rightarrow> (error + unit) \<times> world" where
  "synthesize_tts text voice out_path rate_pct pitch_pct e w =
     (let rate = (if rate_pct \<noteq> 0 then Some (str_int rate_pct @ lit ''%'') else None);
          pitch = (if pitch_pct \<noteq> 0 then Some (str_int pitch_pct @ lit ''%'') else None)
      in synthesize text voice out_path rate pitch e w)"

section \<open>The media composer\<close>

text \<open>
  \<^verbatim>\<open>create_video_with_voiceover\<close> (lines 61 to 90). An exception raised by a call leaves
  the function at once, with the world as it is at that point: there is no handler in the
  source.
\<close>

definition create_video_with_voiceover ::
  "pystr \<Rightarrow> pystr option \<Rightarrow> pystr option \<Rightarrow> pystr \<Rightarrow> env \<Rightarrow> world
     \<Rightarrow> (error + pystr \<times> real) \<times> world" where
  "create_video_with_voiceover audio_path video_path image_path out_path e w0 =
     (case AudioFileClip audio_path w0 of
        (Inl err, w1) \<Rightarrow> (Inl err, w1)
      | (Inr audio_clip, w1) \<Rightarrow>
          (let duration = a_duration audio_clip in
           if truthy video_path then
             (case VideoFileClip (the video_path) w1 of
                (Inl err, w2) \<Rightarrow> (Inl err, w2)
              | (Inr video, w2) \<Rightarrow>
                  (case (case v_duration video of
                           None \<Rightarrow> Inl TypeError
                         | Some vd \<Rightarrow>
                             if vd < duration then
                               (if vd = 0 then Inl ZeroDivisionError
                                else (let n = \<lfloor>duration / vd\<rfloor> + 1 in
                                      case concatenate_videoclips (replicate (nat n) video) of
                                        Inl err \<Rightarrow> Inl err
                                      | Inr c \<Rightarrow> subclip c 0 duration))
                             else subclip video 0 duration) of
                     Inl err \<Rightarrow> (Inl err, w2)
                   | Inr video1 \<Rightarrow>
                       (let video2 = set_audio video1 audio_clip in
                        case write_videofile video2 out_path None (lit ''libx264'') (lit ''aac'') e w2 of
                          (Inl err, w3) \<Rightarrow> (Inl err, w3)
                        | (Inr u, w3) \<Rightarrow>
                            (Inr (out_path, duration),
                             close_audio audio_clip (close_video video2 w3)))))
           else
             (case (if truthy image_path then ImageClip (the image_path) w1
                    else (let img = Image_new (1280, 720) (0, 0, 0);
                              tmp_img = NamedTemporaryFile e (lit ''.png'')
                          in ImageClip tmp_img (image_save img tmp_img w1))) of
                (Inl err, w2) \<Rightarrow> (Inl err, w2)
              | (Inr clip, w2) \<Rightarrow>
                  (case resize (set_duration clip duration) 720 of
                     Inl err \<Rightarrow> (Inl err, w2)
                   | Inr clip1 \<Rightarrow>
                       (let clip2 = set_audio clip1 audio_clip in
                        case write_videofile clip2 out_path (Some 24) (lit ''libx264'') (lit ''aac'') e w2 of
                          (Inl err, w3) \<Rightarrow> (Inl err, w3)
                        | (Inr u, w3) \<Rightarrow>
                            (Inr (out_path, duration),
                             close_audio audio_clip (close_video clip2 w3)))))))"

section \<open>The form handler\<close>

text \<open>
  The body of \<^verbatim>\<open>if st.button("Generate Video")\<close> (lines 108 to 137), for one run of the
  script. \<open>clicked\<close> is the value of the button, \<open>upload\<close> the uploaded file if any.
\<close>

record upload =
  u_name :: pystr
  u_content :: content

definition generate_video_handler ::
  "bool \<Rightarrow> pystr \<Rightarrow> pystr \<Rightarrow> int \<Rightarrow> int \<Rightarrow> upload option \<Rightarrow> env \<Rightarrow> world
     \<Rightarrow> (error + unit) \<times> world" where
  "generate_video_handler clicked text_input voice rate pitch upl e w0 =
     (if clicked then
        (if strip text_input = [] then
           (Inr (), emit (StError (lit ''Please enter some text.'')) w0)
         else
           (let audio_file = path_join (tmp_dir e) (lit ''voice.mp3'') in
            case synthesize_tts text_input voice audio_file rate pitch e w0 of
              (Inl err, w1) \<Rightarrow> (Inl err, w1)
            | (Inr u, w1) \<Rightarrow>
                (case (case upl of
                         None \<Rightarrow> (None, None, w1)
                       | Some up \<Rightarrow>
                           (let file_path = path_join (tmp_dir e) (u_name up);
                                w2 = write_file file_path (u_content up) w1
                            in if lower (suffix file_path)
                                    \<in> set [lit ''.mp4'', lit ''.mov'', lit ''.webm'']
                               then (Some file_path, None, w2)
                               else (None, Some file_path, w2))) of
                   (video_path, image_path, w2) \<Rightarrow>
                     (let out_video = path_join (tmp_dir e) (lit ''output.mp4'') in
                      case create_video_with_voiceover audio_file video_path image_path out_video e w2 of
                        (Inl err, w3) \<Rightarrow> (Inl err, w3)
                      | (Inr (final_video, dur), w3) \<Rightarrow>
                          (Inr (),
                           emit (StDownload (lit ''Download MP3'') audio_file
                                   (lit ''voiceover_audio.mp3'') (lit ''audio/mpeg''))
                             (emit (StDownload (lit ''Download MP4'') final_video
                                      (lit ''voiceover_video.mp4'') (lit ''video/mp4''))
                                (emit (StVideo final_video)
                                   (emit (StSuccess (9989 # lit '' Done!'')) w3))))))))
      else (Inr (), w0))"

section \<open>Notions used in the statements\<close>

text \<open>The clips handed to the encoder, in the order of the calls.\<close>

definition encoded_clips :: "world \<Rightarrow> video_clip list" where
  "encoded_clips w = [c. WriteVideofile p c f vc ac \<leftarrow> trace w]"

text \<open>The clips handed to the encoder between a world and a later one.\<close>

definition handed_to_encoder :: "world \<Rightarrow> world \<Rightarrow> video_clip list" where
  "handed_to_encoder w w' = drop (length (encoded_clips w)) (encoded_clips w')"

text \<open>
  Modelled from the spec: what the media library does with a clip of zero duration. The
  library is not part of the repository; section 4.2 of the specification lists
  zero-duration audio among the failure conditions of the composition, and the composer
  itself has no test on the duration, so the failure is the library's: the encoder refuses
  a clip that lasts zero seconds.
\<close>

definition refuses_zero_length :: "env \<Rightarrow> bool" where
  "refuses_zero_length e \<longleftrightarrow> (\<forall>c. v_duration c = Some 0 \<longrightarrow> \<not> encoder_ok e c)"

fun is_close :: "event \<Rightarrow> bool" where
  "is_close (CloseVideo c) = True"
| "is_close (CloseAudio a) = True"
| "is_close ev = False"

fun is_ui :: "event \<Rightarrow> bool" where
  "is_ui (StError m) = True"
| "is_ui (StSuccess m) = True"
| "is_ui (StVideo p) = True"
| "is_ui (StDownload l p n m) = True"
| "is_ui ev = False"

fun is_save :: "event \<Rightarrow> bool" where
  "is_save (Save c p) = True"
| "is_save ev = False"

text \<open>
  The handles a trace leaves open. \<^verbatim>\<open>close()\<close> releases the reader the clip itself holds.
  A cut, a resized clip and a clip with another audio are copies of the clip they come from
  and share its reader. The clip \<^verbatim>\<open>concatenate_videoclips\<close> builds holds no reader: its
  \<^verbatim>\<open>close()\<close> does nothing, and the clips it was built from stay open.
\<close>

fun held :: "frames \<Rightarrow> handle list" where
  "held (Footage p) = [VideoHandle p]"
| "held (Still p im) = [ImageHandle p]"
| "held (Chain fs) = []"
| "held (Cut fr t0 t1) = held fr"
| "held (Resized fr w h) = held fr"

fun released_by :: "event \<Rightarrow> handle list" where
  "released_by (CloseVideo c) = held (v_frames c)"
| "released_by (CloseAudio a) = [AudioHandle (a_filename a)]"
| "released_by ev = []"

fun leaked :: "event list \<Rightarrow> handle list" where
  "leaked [] = []"
| "leaked (Open h # evs) =
     (if h \<in> set (concat (map released_by evs)) then leaked evs else h # leaked evs)"
| "leaked (ev # evs) = leaked evs"

definition all_released :: "event list \<Rightarrow> bool" where
  "all_released evs \<longleftrightarrow> leaked evs = []"

text \<open>
  A visual source the media library can work with: a supplied video is a video file of
  positive duration, a supplied image is an image file of positive height; the placeholder
  needs nothing.
\<close>

definition visual_readable :: "world \<Rightarrow> pystr option \<Rightarrow> pystr option \<Rightarrow> bool" where
  "visual_readable w video_path image_path =
     (if truthy video_path then
        (case files w (the video_path) of Some (VideoData vd wd ht f) \<Rightarrow> 0 < vd | _ \<Rightarrow> False)
      else if truthy image_path then
        (case files w (the image_path) of Some (ImageData im) \<Rightarrow> 0 < im_height im | _ \<Rightarrow> False)
      else True)"

text \<open>A small world for the concrete runs below.\<close>

definition studio :: env where
  "studio = \<lparr>encoder_ok = (\<lambda>c. v_duration c \<noteq> Some 0), tts_service = (\<lambda>c. Some 5),
             tmp_stem = lit ''/tmp/tmpimg'', tmp_dir = lit ''/tmp/req''\<rparr>"

definition disk :: world where
  "disk = \<lparr>files = [lit ''voice.mp3'' \<mapsto> AudioData 5,
                     lit ''silence.mp3'' \<mapsto> AudioData 0,
                     lit ''clip.mp4'' \<mapsto> VideoData 2 640 480 30,
                     lit ''long.mp4'' \<mapsto> VideoData 8 1920 1080 25,
                     lit ''photo.png'' \<mapsto>
                       ImageData \<lparr>im_width = 1000, im_height = 500, im_pixels = Raster 1\<rparr>],
           trace = []\<rparr>"

section \<open>Facts about the values and the library primitives\<close>

lemma lit_eq_iff [simp]: "lit a = lit b \<longleftrightarrow> a = b"
  by (simp add: lit_def inj_map_eq_map[OF inj_of_char])

lemma lit_Nil_iff [simp]: "lit a = [] \<longleftrightarrow> a = []"
  by (simp add: lit_def)

lemma lit_append: "lit a @ lit b = lit (a @ b)"
  by (simp add: lit_def)

lemma somes_replicate: "[f. Some f \<leftarrow> replicate n (Some x)] = replicate n x"
  by (induction n) simp_all

lemma concatenate_replicate:
  assumes "0 < n" and "v_duration c = Some vd" and "v_fps c = Some f"
  shows "concatenate_videoclips (replicate n c) =
     Inr \<lparr>v_frames = Chain (replicate n (v_frames c)), v_duration = Some (real n * vd),
          v_size = v_size c, v_fps = Some f, v_audio = None\<rparr>"
  using assms
  by (simp add: concatenate_videoclips_def sum_list_replicate somes_replicate)

lemma loop_count:
  fixes d vd :: real
  assumes "0 < vd" and "vd < d"
  shows "2 \<le> \<lfloor>d / vd\<rfloor> + 1"
    and "d < real (nat (\<lfloor>d / vd\<rfloor> + 1)) * vd"
    and "real (nat (\<lfloor>d / vd\<rfloor> + 1) - 1) * vd \<le> d"
proof -
  have q: "1 < d / vd" using assms by simp
  then have f1: "1 \<le> \<lfloor>d / vd\<rfloor>" by linarith
  then show "2 \<le> \<lfloor>d / vd\<rfloor> + 1" by simp
  have "d / vd < of_int (\<lfloor>d / vd\<rfloor> + 1)" by linarith
  moreover have "real (nat (\<lfloor>d / vd\<rfloor> + 1)) = of_int (\<lfloor>d / vd\<rfloor> + 1)"
    using f1 by simp
  ultimately have "d / vd < real (nat (\<lfloor>d / vd\<rfloor> + 1))" by simp
  then show "d < real (nat (\<lfloor>d / vd\<rfloor> + 1)) * vd"
    using assms(1) by (simp add: divide_less_eq)
  have "nat (\<lfloor>d / vd\<rfloor> + 1) - 1 = nat \<lfloor>d / vd\<rfloor>" using f1 by simp
  then have "real (nat (\<lfloor>d / vd\<rfloor> + 1) - 1) = of_int \<lfloor>d / vd\<rfloor>" using f1 by simp
  moreover have "of_int \<lfloor>d / vd\<rfloor> \<le> d / vd" by simp
  ultimately have "real (nat (\<lfloor>d / vd\<rfloor> + 1) - 1) \<le> d / vd" by simp
  then show "real (nat (\<lfloor>d / vd\<rfloor> + 1) - 1) * vd \<le> d"
    using assms(1) by (simp add: le_divide_eq)
qed

lemma audio_open:
  "files w ap = Some (AudioData d) \<Longrightarrow>
     AudioFileClip ap w = (Inr \<lparr>a_filename = ap, a_duration = d\<rparr>, emit (Open (AudioHandle ap)) w)"
  by (simp add: AudioFileClip_def)

lemma files_emit: "files (emit ev w) = files w"
  by (simp add: emit_def)

lemma trace_emit: "trace (emit ev w) = trace w @ [ev]"
  by (simp add: emit_def)

lemma files_write_file: "files (write_file p c w) = (files w)(p \<mapsto> c)"
  by (simp add: write_file_def)

lemma trace_write_file: "trace (write_file p c w) = trace w"
  by (simp add: write_file_def)

section \<open>The composer, case by case\<close>

text \<open>
  What \<^verbatim>\<open>create_video_with_voiceover\<close> returns and the world it leaves, for each kind of
  input: the three visual sources when they are readable, and each way a call can raise.
\<close>

lemma files_close: "files (close_audio a (close_video c w)) = files w"
  by (simp add: close_audio_def close_video_def files_emit)

lemma trace_close_audio: "trace (close_audio a w) = trace w @ [CloseAudio a]"
  by (simp add: close_audio_def trace_emit)

lemma trace_close_video: "trace (close_video c w) = trace w @ [CloseVideo c]"
  by (simp add: close_video_def trace_emit)

lemmas trace_simps = trace_emit trace_write_file trace_close_audio trace_close_video

lemma encoded_clips_simps:
  "encoded_clips (emit (WriteVideofile p c f vc ac) w) = encoded_clips w @ [c]"
  "encoded_clips (emit (Open h) w) = encoded_clips w"
  "encoded_clips (emit (ImageSave q im) w) = encoded_clips w"
  "encoded_clips (write_file q ct w) = encoded_clips w"
  "encoded_clips (close_video c w) = encoded_clips w"
  "encoded_clips (close_audio a w) = encoded_clips w"
  by (simp_all add: encoded_clips_def trace_simps)

lemma composer_video:
  assumes a: "files w ap = Some (AudioData d)"
    and v: "vp \<noteq> []" "files w vp = Some (VideoData vd wd ht f)"
    and pos: "0 \<le> vd" "vd < d \<Longrightarrow> 0 < vd"
  shows "create_video_with_voiceover ap (Some vp) ip out e w =
     (let a = \<lparr>a_filename = ap, a_duration = d\<rparr>;
          clip = \<lparr>v_frames =
                    (if vd < d then Cut (Chain (replicate (nat (\<lfloor>d / vd\<rfloor> + 1)) (Footage vp))) 0 d
                     else Cut (Footage vp) 0 d),
                  v_duration = Some d, v_size = (wd, ht), v_fps = Some f, v_audio = Some a\<rparr>;
          w3 = emit (WriteVideofile out clip f (lit ''libx264'') (lit ''aac''))
                 (emit (Open (VideoHandle vp)) (emit (Open (AudioHandle ap)) w))
      in if encoder_ok e clip
         then (Inr (out, d), close_audio a (close_video clip (write_file out (VideoData d wd ht f) w3)))
         else (Inl EncoderError, w3))"
proof (cases "vd < d")
  case True
  then have p: "0 < vd" using pos by simp
  have n: "0 < nat (\<lfloor>d / vd\<rfloor> + 1)" using loop_count(1)[OF p True] by simp
  have "0 \<le> real_of_int \<lfloor>d / vd\<rfloor> + 1" using loop_count(1)[OF p True] by linarith
  then have "0 \<le> (real_of_int \<lfloor>d / vd\<rfloor> + 1) * vd" using p by simp
  then have nn: "\<not> (real_of_int \<lfloor>d / vd\<rfloor> + 1) * vd < 0" by simp
  show ?thesis
    using a v True p nn
    by (simp add: create_video_with_voiceover_def audio_open truthy_def VideoFileClip_def
        files_emit concatenate_replicate[OF n] subclip_def set_audio_def write_videofile_def Let_def)
next
  case False
  show ?thesis
    using a v False pos(1)
    by (simp add: create_video_with_voiceover_def audio_open truthy_def VideoFileClip_def
        files_emit subclip_def set_audio_def write_videofile_def Let_def)
qed

lemma composer_image:
  assumes a: "files w ap = Some (AudioData d)"
    and nv: "\<not> truthy video_path"
    and i: "ip \<noteq> []" "files w ip = Some (ImageData im)" "0 < im_height im"
  shows "create_video_with_voiceover ap video_path (Some ip) out e w =
     (let a = \<lparr>a_filename = ap, a_duration = d\<rparr>;
          clip = \<lparr>v_frames = Resized (Still ip im) (im_width im * 720 div im_height im) 720,
                  v_duration = Some d, v_size = (im_width im * 720 div im_height im, 720),
                  v_fps = None, v_audio = Some a\<rparr>;
          w3 = emit (WriteVideofile out clip 24 (lit ''libx264'') (lit ''aac''))
                 (emit (Open (ImageHandle ip)) (emit (Open (AudioHandle ap)) w))
      in if encoder_ok e clip
         then (Inr (out, d),
               close_audio a (close_video clip
                 (write_file out (VideoData d (im_width im * 720 div im_height im) 720 24) w3)))
         else (Inl EncoderError, w3))"
  using assms
  by (simp add: create_video_with_voiceover_def audio_open truthy_def ImageClip_def
      files_emit set_duration_def resize_def set_audio_def write_videofile_def Let_def)

lemma composer_placeholder:
  assumes a: "files w ap = Some (AudioData d)"
    and nv: "\<not> truthy video_path" and ni: "\<not> truthy image_path"
  shows "create_video_with_voiceover ap video_path image_path out e w =
     (let a = \<lparr>a_filename = ap, a_duration = d\<rparr>;
          img = \<lparr>im_width = 1280, im_height = 720, im_pixels = Fill 0 0 0\<rparr>;
          tmp = tmp_stem e @ lit ''.png'';
          clip = \<lparr>v_frames = Resized (Still tmp img) 1280 720,
                  v_duration = Some d, v_size = (1280, 720), v_fps = None, v_audio = Some a\<rparr>;
          w3 = emit (WriteVideofile out clip 24 (lit ''libx264'') (lit ''aac''))
                 (emit (Open (ImageHandle tmp))
                    (write_file tmp (ImageData img)
                       (emit (ImageSave tmp img) (emit (Open (AudioHandle ap)) w))))
      in if encoder_ok e clip
         then (Inr (out, d),
               close_audio a (close_video clip (write_file out (VideoData d 1280 720 24) w3)))
         else (Inl EncoderError, w3))"
  using assms
  by (simp add: create_video_with_voiceover_def audio_open ImageClip_def Image_new_def
      image_save_def NamedTemporaryFile_def files_emit files_write_file
      set_duration_def resize_def set_audio_def write_videofile_def Let_def)

lemma audio_fail:
  "\<forall>d. files w ap \<noteq> Some (AudioData d) \<Longrightarrow> AudioFileClip ap w = (Inl (IOError ap), w)"
  by (simp add: AudioFileClip_def split: option.splits content.splits)

lemma video_fail:
  "\<forall>vd wd ht f. files w vp \<noteq> Some (VideoData vd wd ht f) \<Longrightarrow>
     VideoFileClip vp w = (Inl (IOError vp), w)"
  by (simp add: VideoFileClip_def split: option.splits content.splits)

lemma image_fail:
  "\<forall>im. files w ip \<noteq> Some (ImageData im) \<Longrightarrow> ImageClip ip w = (Inl (IOError ip), w)"
  by (simp add: ImageClip_def split: option.splits content.splits)

lemma composer_audio_unreadable:
  assumes "\<forall>d. files w ap \<noteq> Some (AudioData d)"
  shows "create_video_with_voiceover ap video_path image_path out e w = (Inl (IOError ap), w)"
  by (simp add: create_video_with_voiceover_def audio_fail[OF assms])

lemma composer_video_unreadable:
  assumes "files w ap = Some (AudioData d)" and "vp \<noteq> []"
    and "\<forall>vd wd ht f. files w vp \<noteq> Some (VideoData vd wd ht f)"
  shows "create_video_with_voiceover ap (Some vp) image_path out e w =
           (Inl (IOError vp), emit (Open (AudioHandle ap)) w)"
  using assms
  by (simp add: create_video_with_voiceover_def audio_open truthy_def video_fail files_emit)

lemma composer_video_zero:
  assumes "files w ap = Some (AudioData d)" and "vp \<noteq> []"
    and "files w vp = Some (VideoData 0 wd ht f)" and "0 < d"
  shows "create_video_with_voiceover ap (Some vp) image_path out e w =
           (Inl ZeroDivisionError, emit (Open (VideoHandle vp)) (emit (Open (AudioHandle ap)) w))"
  using assms
  by (simp add: create_video_with_voiceover_def audio_open truthy_def VideoFileClip_def files_emit)

lemma composer_video_negative:
  assumes "files w ap = Some (AudioData d)" and "vp \<noteq> []"
    and "files w vp = Some (VideoData vd wd ht f)" and "vd < 0"
  shows "create_video_with_voiceover ap (Some vp) image_path out e w =
           (Inl ValueError, emit (Open (VideoHandle vp)) (emit (Open (AudioHandle ap)) w))"
proof -
  let ?n = "nat (\<lfloor>d / vd\<rfloor> + 1)"
  let ?video = "\<lparr>v_frames = Footage vp, v_duration = Some vd, v_size = (wd, ht),
                  v_fps = Some f, v_audio = None\<rparr>"
  have loop: "(case concatenate_videoclips (replicate ?n ?video) of
                 Inl err \<Rightarrow> Inl err | Inr c \<Rightarrow> subclip c 0 d) = Inl ValueError"
  proof (cases "?n = 0")
    case True
    then show ?thesis by (simp add: concatenate_videoclips_def)
  next
    case False
    then have n: "0 < ?n" by (metis gr0I)
    then have "0 < real ?n" by (simp only: of_nat_0_less_iff)
    then have "real ?n * vd < 0" using assms(4) by (rule mult_pos_neg)
    then show ?thesis
      using n by (simp add: concatenate_replicate[OF n, of ?video vd f] subclip_def)
  qed
  have trim: "subclip ?video 0 d = Inl ValueError"
    using assms(4) by (simp add: subclip_def)
  show ?thesis
    using assms loop trim
    by (simp add: create_video_with_voiceover_def audio_open truthy_def VideoFileClip_def
        files_emit Let_def)
qed

lemma composer_image_unreadable:
  assumes "files w ap = Some (AudioData d)" and "\<not> truthy video_path" and "ip \<noteq> []"
    and "\<forall>im. files w ip \<noteq> Some (ImageData im)"
  shows "create_video_with_voiceover ap video_path (Some ip) out e w =
           (Inl (IOError ip), emit (Open (AudioHandle ap)) w)"
  using assms
  by (simp add: create_video_with_voiceover_def audio_open truthy_def image_fail files_emit)

lemma composer_image_flat:
  assumes "files w ap = Some (AudioData d)" and "\<not> truthy video_path" and "ip \<noteq> []"
    and "files w ip = Some (ImageData im)" and "im_height im = 0"
  shows "create_video_with_voiceover ap video_path (Some ip) out e w =
           (Inl ZeroDivisionError, emit (Open (ImageHandle ip)) (emit (Open (AudioHandle ap)) w))"
  using assms
  by (simp add: create_video_with_voiceover_def audio_open truthy_def ImageClip_def files_emit
      set_duration_def resize_def)

lemma truthyE:
  assumes "truthy po"
  obtains p where "po = Some p" and "p \<noteq> []"
  using assms by (cases po) (simp_all add: truthy_def)

lemma composer_outcome:
  fixes ap vpo ipo out e w
  defines "run \<equiv> create_video_with_voiceover ap vpo ipo out e w"
  obtains (raised) err evs where
      "fst run = Inl err"
      "trace (snd run) = trace w @ evs"
      "\<forall>ev\<in>set evs. \<not> is_close ev \<and> \<not> is_ui ev \<and> \<not> is_save ev"
      "\<forall>c\<in>set [c. WriteVideofile p c f vc ac \<leftarrow> evs]. \<not> encoder_ok e c \<and> err = EncoderError"
  | (returned) d clip fps evs where
      "fst run = Inr (out, d)"
      "files w ap = Some (AudioData d)"
      "v_duration clip = Some d"
      "encoder_ok e clip"
      "trace (snd run) = trace w @ evs @
         [WriteVideofile out clip fps (lit ''libx264'') (lit ''aac''), CloseVideo clip,
          CloseAudio \<lparr>a_filename = ap, a_duration = d\<rparr>]"
      "\<forall>ev\<in>set evs. \<not> is_close ev \<and> \<not> is_ui ev \<and> \<not> is_save ev"
      "[c. WriteVideofile p c f vc ac \<leftarrow> evs] = []"
proof (cases "\<exists>d. files w ap = Some (AudioData d)")
  case False
  then have "run = (Inl (IOError ap), w)"
    unfolding run_def by (simp add: composer_audio_unreadable)
  then show thesis by (intro raised[of "IOError ap" "[]"]) simp_all
next
  case True
  then obtain d where a: "files w ap = Some (AudioData d)" by blast
  let ?a = "\<lparr>a_filename = ap, a_duration = d\<rparr>"
  show thesis
  proof (cases "truthy vpo")
    case True
    then obtain vp where vp: "vpo = Some vp" "vp \<noteq> []" by (rule truthyE)
    show thesis
    proof (cases "\<exists>vd wd ht f. files w vp = Some (VideoData vd wd ht f)")
      case False
      then have "run = (Inl (IOError vp), emit (Open (AudioHandle ap)) w)"
        unfolding run_def vp using a vp(2) by (simp add: composer_video_unreadable)
      then show thesis
        by (intro raised[of "IOError vp" "[Open (AudioHandle ap)]"]) (simp_all add: trace_simps)
    next
      case True
      then obtain vd wd ht f where v: "files w vp = Some (VideoData vd wd ht f)" by blast
      consider (neg) "vd < 0" | (zero) "vd = 0" "vd < d" | (ok) "0 \<le> vd" "vd < d \<Longrightarrow> 0 < vd"
        by fastforce
      then show thesis
      proof cases
        case neg
        have "run = (Inl ValueError, emit (Open (VideoHandle vp)) (emit (Open (AudioHandle ap)) w))"
          unfolding run_def vp by (rule composer_video_negative[OF a vp(2) v neg])
        then show thesis
          by (intro raised[of ValueError "[Open (AudioHandle ap), Open (VideoHandle vp)]"])
            (simp_all add: trace_simps)
      next
        case zero
        have "run = (Inl ZeroDivisionError,
                     emit (Open (VideoHandle vp)) (emit (Open (AudioHandle ap)) w))"
          unfolding run_def vp using a vp(2) v zero by (simp add: composer_video_zero)
        then show thesis
          by (intro raised[of ZeroDivisionError "[Open (AudioHandle ap), Open (VideoHandle vp)]"])
            (simp_all add: trace_simps)
      next
        case ok
        let ?clip = "\<lparr>v_frames =
                    (if vd < d then Cut (Chain (replicate (nat (\<lfloor>d / vd\<rfloor> + 1)) (Footage vp))) 0 d
                     else Cut (Footage vp) 0 d),
                  v_duration = Some d, v_size = (wd, ht), v_fps = Some f, v_audio = Some ?a\<rparr>"
        note r = composer_video[OF a vp(2) v ok, of ipo out e, folded vp(1), folded run_def]
        show thesis
        proof (cases "encoder_ok e ?clip")
          case True
          with r show thesis
            by (intro returned[of d ?clip "[Open (AudioHandle ap), Open (VideoHandle vp)]" f])
              (simp_all add: a Let_def trace_simps)
        next
          case False
          with r show thesis
            by (intro raised[of EncoderError "[Open (AudioHandle ap), Open (VideoHandle vp),
                  WriteVideofile out ?clip f (lit ''libx264'') (lit ''aac'')]"])
              (simp_all add: Let_def trace_simps)
        qed
      qed
    qed
  next
    case nv: False
    show thesis
    proof (cases "truthy ipo")
      case True
      then obtain ip where ip: "ipo = Some ip" "ip \<noteq> []" by (rule truthyE)
      show thesis
      proof (cases "\<exists>im. files w ip = Some (ImageData im)")
        case False
        then have "run = (Inl (IOError ip), emit (Open (AudioHandle ap)) w)"
          unfolding run_def ip using a nv ip(2) by (simp add: composer_image_unreadable)
        then show thesis
          by (intro raised[of "IOError ip" "[Open (AudioHandle ap)]"]) (simp_all add: trace_simps)
      next
        case True
        then obtain im where i: "files w ip = Some (ImageData im)" by blast
        show thesis
        proof (cases "im_height im = 0")
          case True
          have "run = (Inl ZeroDivisionError,
                       emit (Open (ImageHandle ip)) (emit (Open (AudioHandle ap)) w))"
            unfolding run_def ip by (rule composer_image_flat[OF a nv ip(2) i True])
          then show thesis
            by (intro raised[of ZeroDivisionError "[Open (AudioHandle ap), Open (ImageHandle ip)]"])
              (simp_all add: trace_simps)
        next
          case False
          then have h: "0 < im_height im" by simp
          let ?clip = "\<lparr>v_frames = Resized (Still ip im) (im_width im * 720 div im_height im) 720,
                  v_duration = Some d, v_size = (im_width im * 720 div im_height im, 720),
                  v_fps = None, v_audio = Some ?a\<rparr>"
          note r = composer_image[OF a nv ip(2) i h, of out e, folded ip(1), folded run_def]
          show thesis
          proof (cases "encoder_ok e ?clip")
            case True
            with r show thesis
              by (intro returned[of d ?clip "[Open (AudioHandle ap), Open (ImageHandle ip)]" 24])
                (simp_all add: a Let_def trace_simps)
          next
            case False
            with r show thesis
              by (intro raised[of EncoderError "[Open (AudioHandle ap), Open (ImageHandle ip),
                    WriteVideofile out ?clip 24 (lit ''libx264'') (lit ''aac'')]"])
                (simp_all add: Let_def trace_simps)
          qed
        qed
      qed
    next
      case ni: False
      let ?img = "\<lparr>im_width = 1280, im_height = 720, im_pixels = Fill 0 0 0\<rparr>"
      let ?tmp = "tmp_stem e @ lit ''.png''"
      let ?clip = "\<lparr>v_frames = Resized (Still ?tmp ?img) 1280 720,
                  v_duration = Some d, v_size = (1280, 720), v_fps = None, v_audio = Some ?a\<rparr>"
      note r = composer_placeholder[OF a nv ni, of out e, folded run_def]
      show thesis
      proof (cases "encoder_ok e ?clip")
        case True
        with r show thesis
          by (intro returned[of d ?clip "[Open (AudioHandle ap), ImageSave ?tmp ?img,
                Open (ImageHandle ?tmp)]" 24])
            (simp_all add: a Let_def trace_simps)
      next
        case False
        with r show thesis
          by (intro raised[of EncoderError "[Open (AudioHandle ap), ImageSave ?tmp ?img,
                Open (ImageHandle ?tmp), WriteVideofile out ?clip 24 (lit ''libx264'') (lit ''aac'')]"])
            (simp_all add: Let_def trace_simps)
      qed
    qed
  qed
qed

section \<open>The handler, case by case\<close>

lemma strip_empty_iff: "strip s = [] \<longleftrightarrow> (\<forall>c\<in>set s. isspace c)"
proof
  assume "strip s = []"
  then have "\<forall>c\<in>set (dropWhile isspace s). isspace c"
    by (simp add: strip_def)
  then have "dropWhile isspace s = []"
    by (metis hd_dropWhile hd_in_set)
  then show "\<forall>c\<in>set s. isspace c"
    by simp
next
  assume "\<forall>c\<in>set s. isspace c"
  then show "strip s = []"
    by (auto simp: strip_def dest: set_dropWhileD)
qed

lemma synthesize_tts_save:
  "\<exists>comm. synthesize_tts text voice out rate_pct pitch_pct e w = save comm out e w
      \<and> c_voice comm = voice"
  unfolding synthesize_tts_def synthesize_def Let_def
  apply (intro exI conjI)
   apply (rule refl)
  apply (simp add: Communicate_def)
  done

lemma save_cases:
  obtains (failed) "save comm out e w = (Inl SynthesisError, emit (Save comm out) w)"
  | (saved) d where "save comm out e w = (Inr (), write_file out (AudioData d) (emit (Save comm out) w))"
  by (cases "tts_service e comm") (simp_all add: save_def Let_def)

lemma handler_blank:
  assumes "\<forall>c\<in>set text_input. isspace c"
  shows "generate_video_handler True text_input voice rate pitch upl e w =
           (Inr (), emit (StError (lit ''Please enter some text.'')) w)"
  using assms by (simp add: generate_video_handler_def strip_empty_iff)

lemma handler_outcome:
  fixes text_input voice rate pitch upl e w
  defines "run \<equiv> generate_video_handler True text_input voice rate pitch upl e w"
  defines "audio_file \<equiv> path_join (tmp_dir e) (lit ''voice.mp3'')"
  assumes nonblank: "\<exists>c\<in>set text_input. \<not> isspace c"
  obtains (raised) err comm evs where
      "fst run = Inl err"
      "synthesize_tts text_input voice audio_file rate pitch e w = save comm audio_file e w"
      "c_voice comm = voice"
      "trace (snd run) = trace w @ Save comm audio_file # evs"
      "\<forall>ev\<in>set evs. \<not> is_ui ev \<and> \<not> is_save ev \<and> \<not> is_close ev"
  | (returned) comm evs out clip fps d where
      "fst run = Inr ()"
      "synthesize_tts text_input voice audio_file rate pitch e w = save comm audio_file e w"
      "c_voice comm = voice"
      "encoder_ok e clip"
      "trace (snd run) = trace w @ Save comm audio_file # evs @
         [WriteVideofile out clip fps (lit ''libx264'') (lit ''aac''), CloseVideo clip,
          CloseAudio \<lparr>a_filename = audio_file, a_duration = d\<rparr>,
          StSuccess (9989 # lit '' Done!''), StVideo out,
          StDownload (lit ''Download MP4'') out (lit ''voiceover_video.mp4'') (lit ''video/mp4''),
          StDownload (lit ''Download MP3'') audio_file (lit ''voiceover_audio.mp3'') (lit ''audio/mpeg'')]"
      "\<forall>ev\<in>set evs. \<not> is_ui ev \<and> \<not> is_save ev \<and> \<not> is_close ev"
proof -
  have ns: "strip text_input \<noteq> []" using nonblank by (simp add: strip_empty_iff)
  obtain comm where comm:
    "synthesize_tts text_input voice audio_file rate pitch e w = save comm audio_file e w"
    "c_voice comm = voice"
    using synthesize_tts_save by blast
  show thesis
  proof (cases rule: save_cases[of comm audio_file e w])
    case failed
    then have "run = (Inl SynthesisError, emit (Save comm audio_file) w)"
      using ns comm(1) by (simp add: run_def generate_video_handler_def audio_file_def[symmetric])
    then show thesis
      by (intro raised[of SynthesisError comm "[]"]) (simp_all add: comm trace_simps)
  next
    case (saved d)
    define w1 where "w1 = write_file audio_file (AudioData d) (emit (Save comm audio_file) w)"
    define up where "up = (case upl of
                         None \<Rightarrow> (None, None, w1)
                       | Some up \<Rightarrow>
                           (let file_path = path_join (tmp_dir e) (u_name up);
                                w2 = write_file file_path (u_content up) w1
                            in if lower (suffix file_path)
                                    \<in> set [lit ''.mp4'', lit ''.mov'', lit ''.webm'']
                               then (Some file_path, None, w2)
                               else (None, Some file_path, w2)))"
    obtain vpo ipo w2 where up: "up = (vpo, ipo, w2)" by (cases up) auto
    have t2: "trace w2 = trace w @ [Save comm audio_file]"
      using up unfolding up_def w1_def
      by (auto simp: Let_def trace_simps split: option.splits if_splits)
    define out where "out = path_join (tmp_dir e) (lit ''output.mp4'')"
    define comp where "comp = create_video_with_voiceover audio_file vpo ipo out e w2"
    have run: "run = (case comp of
                        (Inl err, w3) \<Rightarrow> (Inl err, w3)
                      | (Inr (final_video, dur), w3) \<Rightarrow>
                          (Inr (),
                           emit (StDownload (lit ''Download MP3'') audio_file
                                   (lit ''voiceover_audio.mp3'') (lit ''audio/mpeg''))
                             (emit (StDownload (lit ''Download MP4'') final_video
                                      (lit ''voiceover_video.mp4'') (lit ''video/mp4''))
                                (emit (StVideo final_video)
                                   (emit (StSuccess (9989 # lit '' Done!'')) w3)))))"
      using ns comm(1) saved up
      by (simp add: run_def generate_video_handler_def audio_file_def[symmetric]
          w1_def[symmetric] up_def[symmetric] out_def[symmetric] comp_def[symmetric] Let_def)
    show thesis
    proof (cases rule: composer_outcome[of audio_file vpo ipo out e w2])
      case (raised err evs)
      then show thesis
        unfolding comp_def[symmetric]
        by (intro that(1)[of err comm evs])
          (auto simp: run comm t2 split: prod.splits sum.splits)
    next
      case (returned d' clip fps evs)
      then show thesis
        unfolding comp_def[symmetric]
        by (intro that(2)[of comm clip evs out fps d'])
          (auto simp: run comm t2 trace_simps split: prod.splits sum.splits)
    qed
  qed
qed

lemma handed_trace:
  "trace w' = trace w @ evs \<Longrightarrow>
     handed_to_encoder w w' = [c. WriteVideofile p c f vc ac \<leftarrow> evs]"
  by (simp add: handed_to_encoder_def encoded_clips_def)

lemma trace_save: "trace (snd (save c out e w)) = trace w @ [Save c out]"
  by (simp add: save_def Let_def trace_simps split: option.splits)

lemma str_int_examples: "str_int 5 = lit ''5''" "str_int (- 10) = lit ''-10''"
  by (simp_all add: str_int_def str_nat.simps lit_def)

lemma isspace_examples: "isspace 32" "isspace 10" "isspace 12288" "\<not> isspace 104"
  by (simp_all add: isspace_def)

lemma handler_placeholder_run:
  assumes nb: "\<exists>c\<in>set text_input. \<not> isspace c"
    and tts: "\<And>c. tts_service e c = Some d"
  shows "fst (generate_video_handler True text_input voice rate pitch None e w) =
     (if encoder_ok e
          \<lparr>v_frames = Resized (Still (tmp_stem e @ lit ''.png'')
                          \<lparr>im_width = 1280, im_height = 720, im_pixels = Fill 0 0 0\<rparr>) 1280 720,
            v_duration = Some d, v_size = (1280, 720), v_fps = None,
            v_audio = Some \<lparr>a_filename = path_join (tmp_dir e) (lit ''voice.mp3''),
                             a_duration = d\<rparr>\<rparr>
      then Inr () else Inl EncoderError)"
proof -
  let ?af = "path_join (tmp_dir e) (lit ''voice.mp3'')"
  obtain comm where comm:
    "synthesize_tts text_input voice ?af rate pitch e w = save comm ?af e w"
    using synthesize_tts_save by blast
  let ?w1 = "write_file ?af (AudioData d) (emit (Save comm ?af) w)"
  have s: "save comm ?af e w = (Inr (), ?w1)" by (simp add: save_def tts Let_def)
  have a: "files ?w1 ?af = Some (AudioData d)" by (simp add: files_write_file)
  have n: "\<not> truthy None" by (simp add: truthy_def)
  have ns: "strip text_input \<noteq> []" using nb by (simp add: strip_empty_iff)
  show ?thesis
    using ns
    by (simp add: generate_video_handler_def comm s composer_placeholder[OF a n n] Let_def)
qed

section \<open>The media composer: durations\<close>

text \<open>
  Claim C1. For every audio duration \<open>d > 0\<close> and every supplied video whose own duration
  \<open>vd\<close> is shorter than \<open>d\<close>, the composer computes the repeat count
  \<open>\<lfloor>d / vd\<rfloor> + 1\<close>, concatenates exactly that many copies of the clip and trims the
  concatenation to \<open>[0, d]\<close>: the clip handed to the encoder is that trim and lasts \<open>d\<close>.
  The copies cover the trim (\<open>d < n * vd\<close>), and one copy fewer would not go beyond \<open>d\<close>
  (\<open>(n - 1) * vd \<le> d\<close>). A supplied video has a positive duration.
\<close>

theorem loop_then_trim:
  assumes "0 < d" and "files w audio_path = Some (AudioData d)"
    and "vp \<noteq> []" and "files w vp = Some (VideoData vd wd ht f)"
    and "0 < vd" and "vd < d"
  shows "let n = nat (\<lfloor>d / vd\<rfloor> + 1);
             run = create_video_with_voiceover audio_path (Some vp) image_path out e w
         in int n = \<lfloor>d / vd\<rfloor> + 1
          \<and> encoded_clips (snd run) = encoded_clips w @
               [\<lparr>v_frames = Cut (Chain (replicate n (Footage vp))) 0 d,
                 v_duration = Some d, v_size = (wd, ht), v_fps = Some f,
                 v_audio = Some \<lparr>a_filename = audio_path, a_duration = d\<rparr>\<rparr>]
          \<and> real (n - 1) * vd \<le> d \<and> d < real n * vd"
proof -
  have vd0: "0 \<le> vd" "vd < d \<Longrightarrow> 0 < vd" using assms(5) by simp_all
  note run = composer_video[OF assms(2,3,4) vd0, of image_path out e]
  note cnt = loop_count[OF assms(5,6)]
  have "int (nat (\<lfloor>d / vd\<rfloor> + 1)) = \<lfloor>d / vd\<rfloor> + 1" using cnt(1) by simp
  moreover have "encoded_clips (snd (create_video_with_voiceover audio_path (Some vp) image_path out e w))
      = encoded_clips w @
               [\<lparr>v_frames = Cut (Chain (replicate (nat (\<lfloor>d / vd\<rfloor> + 1)) (Footage vp))) 0 d,
                 v_duration = Some d, v_size = (wd, ht), v_fps = Some f,
                 v_audio = Some \<lparr>a_filename = audio_path, a_duration = d\<rparr>\<rparr>]"
    using assms(6) by (simp add: run Let_def encoded_clips_simps)
  ultimately show ?thesis using cnt(2,3) by (simp only: Let_def)
qed

theorem loop_then_trim_witness:
  "encoded_clips (snd (create_video_with_voiceover (lit ''voice.mp3'') (Some (lit ''clip.mp4'')) None
       (lit ''out.mp4'') studio disk)) =
     [\<lparr>v_frames = Cut (Chain [Footage (lit ''clip.mp4''), Footage (lit ''clip.mp4''),
                                Footage (lit ''clip.mp4'')]) 0 5,
       v_duration = Some 5, v_size = (640, 480), v_fps = Some 30,
       v_audio = Some \<lparr>a_filename = lit ''voice.mp3'', a_duration = 5\<rparr>\<rparr>]"
  using loop_then_trim[of 5 disk "lit ''voice.mp3''" "lit ''clip.mp4''" 2 640 480 30 None
      "lit ''out.mp4''" studio]
  by (simp add: disk_def encoded_clips_def Let_def eval_nat_numeral)

text \<open>
  Claim C2. For every audio duration \<open>d > 0\<close> and every visual source (a supplied video, a
  supplied image, or none), when the source is readable and the encoder accepts clips of
  duration \<open>d\<close>, the composer returns \<open>(out_path, d)\<close>, the clip it encodes lasts \<open>d\<close>,
  and so does the video file written at \<open>out_path\<close>.
\<close>

theorem output_duration_is_audio_duration:
  assumes d: "0 < d" and a: "files w audio_path = Some (AudioData d)"
    and vis: "visual_readable w video_path image_path"
    and enc: "\<forall>c. v_duration c = Some d \<longrightarrow> encoder_ok e c"
  shows "let run = create_video_with_voiceover audio_path video_path image_path out e w
         in fst run = Inr (out, d)
          \<and> (\<exists>wd ht f. files (snd run) out = Some (VideoData d wd ht f))
          \<and> map v_duration (encoded_clips (snd run)) = map v_duration (encoded_clips w) @ [Some d]"
proof (cases "truthy video_path")
  case True
  then obtain vp where vp: "video_path = Some vp" "vp \<noteq> []" by (rule truthyE)
  from vis True vp obtain vd wd ht f where
    v: "files w vp = Some (VideoData vd wd ht f)" and pos: "0 < vd"
    by (auto simp: visual_readable_def split: option.splits content.splits)
  have vd0: "0 \<le> vd" "vd < d \<Longrightarrow> 0 < vd" using pos by simp_all
  show ?thesis
    unfolding vp(1)
    by (simp add: composer_video[OF a vp(2) v vd0] Let_def enc encoded_clips_simps
        files_close files_write_file)
next
  case nv: False
  show ?thesis
  proof (cases "truthy image_path")
    case True
    then obtain ip where ip: "image_path = Some ip" "ip \<noteq> []" by (rule truthyE)
    from vis nv True ip obtain im where
      i: "files w ip = Some (ImageData im)" and h: "0 < im_height im"
      by (auto simp: visual_readable_def split: option.splits content.splits)
    show ?thesis
      unfolding ip(1)
      by (simp add: composer_image[OF a nv ip(2) i h] Let_def enc encoded_clips_simps
          files_close files_write_file)
  next
    case False
    show ?thesis
      by (simp add: composer_placeholder[OF a nv False] Let_def enc encoded_clips_simps
          files_close files_write_file)
  qed
qed

theorem output_duration_is_audio_duration_witness:
  "fst (create_video_with_voiceover (lit ''voice.mp3'') None (Some (lit ''photo.png''))
          (lit ''out.mp4'') studio disk) = Inr (lit ''out.mp4'', 5)"
  using output_duration_is_audio_duration[of 5 disk "lit ''voice.mp3''" None "Some (lit ''photo.png'')"
      studio "lit ''out.mp4''"]
  by (simp add: disk_def studio_def visual_readable_def truthy_def Let_def)

text \<open>
  Claim C3. For every audio duration \<open>d > 0\<close> and every supplied video at least \<open>d\<close>
  long, the clip handed to the encoder is the original footage cut to \<open>[0, d]\<close>, of
  duration \<open>d\<close>; nothing is concatenated.
\<close>

theorem long_video_trimmed_from_start:
  assumes "0 < d" and "files w audio_path = Some (AudioData d)"
    and "vp \<noteq> []" and "files w vp = Some (VideoData vd wd ht f)"
    and "d \<le> vd"
  shows "encoded_clips (snd (create_video_with_voiceover audio_path (Some vp) image_path out e w))
         = encoded_clips w @
             [\<lparr>v_frames = Cut (Footage vp) 0 d,
               v_duration = Some d, v_size = (wd, ht), v_fps = Some f,
               v_audio = Some \<lparr>a_filename = audio_path, a_duration = d\<rparr>\<rparr>]"
proof -
  have vd0: "0 \<le> vd" "vd < d \<Longrightarrow> 0 < vd" using assms(1,5) by simp_all
  show ?thesis
    using assms(5)
    by (simp add: composer_video[OF assms(2,3,4) vd0] Let_def encoded_clips_simps)
qed

theorem long_video_trimmed_from_start_witness:
  "encoded_clips (snd (create_video_with_voiceover (lit ''voice.mp3'') (Some (lit ''long.mp4'')) None
       (lit ''out.mp4'') studio disk)) =
     [\<lparr>v_frames = Cut (Footage (lit ''long.mp4'')) 0 5,
       v_duration = Some 5, v_size = (1920, 1080), v_fps = Some 25,
       v_audio = Some \<lparr>a_filename = lit ''voice.mp3'', a_duration = 5\<rparr>\<rparr>]"
  using long_video_trimmed_from_start[of 5 disk "lit ''voice.mp3''" "lit ''long.mp4''" 8 1920 1080 25
      None "lit ''out.mp4''" studio]
  by (simp add: disk_def encoded_clips_def)

text \<open>
  Claim C5. For every audio duration \<open>d > 0\<close>, when neither a video nor an image is
  supplied, the composer creates a 1280 by 720 image filled with black, holds it for
  exactly \<open>d\<close>, and encodes it at 24 frames per second.
\<close>

theorem placeholder_black_frame:
  assumes "0 < d" and "files w audio_path = Some (AudioData d)"
    and "\<not> truthy video_path" and "\<not> truthy image_path"
  shows "let run = create_video_with_voiceover audio_path video_path image_path out e w;
             a = \<lparr>a_filename = audio_path, a_duration = d\<rparr>;
             img = \<lparr>im_width = 1280, im_height = 720, im_pixels = Fill 0 0 0\<rparr>;
             tmp = tmp_stem e @ lit ''.png'';
             clip = \<lparr>v_frames = Resized (Still tmp img) 1280 720, v_duration = Some d,
                     v_size = (1280, 720), v_fps = None, v_audio = Some a\<rparr>
         in trace (snd run) = trace w @
              [Open (AudioHandle audio_path), ImageSave tmp img, Open (ImageHandle tmp),
               WriteVideofile out clip 24 (lit ''libx264'') (lit ''aac'')]
              @ (if encoder_ok e clip then [CloseVideo clip, CloseAudio a] else [])
          \<and> (if encoder_ok e clip
              then fst run = Inr (out, d) \<and> files (snd run) out = Some (VideoData d 1280 720 24)
              else fst run = Inl EncoderError)"
  by (simp add: composer_placeholder[OF assms(2,3,4)] Let_def trace_simps files_write_file
      close_audio_def close_video_def files_emit)

theorem placeholder_black_frame_witness:
  "files (snd (create_video_with_voiceover (lit ''voice.mp3'') None None (lit ''out.mp4'') studio disk))
     (lit ''out.mp4'') = Some (VideoData 5 1280 720 24)"
  using placeholder_black_frame[of 5 disk "lit ''voice.mp3''" None None "lit ''out.mp4''" studio]
  by (simp add: disk_def studio_def truthy_def Let_def)

section \<open>The media composer: size and precedence\<close>

text \<open>
  Claim C6, as the specification states it: every visual source, a supplied video
  included, is resized to a height of 720 before the audio is attached and the output is
  encoded. A supplied video of 640 by 480 is encoded at 640 by 480.
\<close>

theorem video_not_resized_counterexample:
  "fst (create_video_with_voiceover (lit ''voice.mp3'') (Some (lit ''clip.mp4'')) None
          (lit ''out.mp4'') studio disk) = Inr (lit ''out.mp4'', 5)
   \<and> map v_size (encoded_clips (snd (create_video_with_voiceover (lit ''voice.mp3'')
          (Some (lit ''clip.mp4'')) None (lit ''out.mp4'') studio disk))) = [(640, 480)]
   \<and> \<not> (\<forall>c\<in>set (encoded_clips (snd (create_video_with_voiceover (lit ''voice.mp3'')
          (Some (lit ''clip.mp4'')) None (lit ''out.mp4'') studio disk))). snd (v_size c) = 720)"
proof -
  have a: "files disk (lit ''voice.mp3'') = Some (AudioData 5)" by (simp add: disk_def)
  have v: "files disk (lit ''clip.mp4'') = Some (VideoData 2 640 480 30)" by (simp add: disk_def)
  have n: "lit ''clip.mp4'' \<noteq> []" by simp
  have p: "(0::real) \<le> 2" "(2::real) < 5 \<Longrightarrow> (0::real) < 2" by simp_all
  show ?thesis
    by (simp add: composer_video[OF a n v p] Let_def studio_def encoded_clips_simps)
      (simp add: encoded_clips_def disk_def)
qed

text \<open>
  Claim C6. After the visual source is resolved, a supplied image and the generated
  placeholder are resized to a height of 720, the width scaled by the same factor and
  truncated to whole pixels, before the audio is attached and the clip is encoded. A
  supplied video goes through no resize: it is encoded at its own size.
\<close>

theorem resize_stills_only:
  assumes a: "files w audio_path = Some (AudioData d)"
  shows "let run = create_video_with_voiceover audio_path video_path image_path out e w;
             au = \<lparr>a_filename = audio_path, a_duration = d\<rparr>
         in (\<forall>ip im. \<not> truthy video_path \<and> image_path = Some ip \<and> ip \<noteq> []
                \<and> files w ip = Some (ImageData im) \<and> 0 < im_height im \<longrightarrow>
               encoded_clips (snd run) = encoded_clips w @
                 [\<lparr>v_frames = Resized (Still ip im) (im_width im * 720 div im_height im) 720,
                   v_duration = Some d,
                   v_size = (im_width im * 720 div im_height im, 720),
                   v_fps = None, v_audio = Some au\<rparr>])
          \<and> (\<not> truthy video_path \<and> \<not> truthy image_path \<longrightarrow>
               encoded_clips (snd run) = encoded_clips w @
                 [\<lparr>v_frames = Resized (Still (tmp_stem e @ lit ''.png'')
                                 \<lparr>im_width = 1280, im_height = 720, im_pixels = Fill 0 0 0\<rparr>)
                               1280 720,
                   v_duration = Some d, v_size = (1280, 720),
                   v_fps = None, v_audio = Some au\<rparr>])
          \<and> (\<forall>vp vd wd ht f. video_path = Some vp \<and> vp \<noteq> []
                \<and> files w vp = Some (VideoData vd wd ht f) \<and> 0 < vd \<longrightarrow>
               encoded_clips (snd run) = encoded_clips w @
                 [\<lparr>v_frames =
                     (if vd < d
                      then Cut (Chain (replicate (nat (\<lfloor>d / vd\<rfloor> + 1)) (Footage vp))) 0 d
                      else Cut (Footage vp) 0 d),
                   v_duration = Some d, v_size = (wd, ht),
                   v_fps = Some f, v_audio = Some au\<rparr>])"
proof -
  have still: "encoded_clips (snd (create_video_with_voiceover audio_path video_path (Some ip) out e w))
      = encoded_clips w @
                 [\<lparr>v_frames = Resized (Still ip im) (im_width im * 720 div im_height im) 720,
                   v_duration = Some d,
                   v_size = (im_width im * 720 div im_height im, 720),
                   v_fps = None, v_audio = Some \<lparr>a_filename = audio_path, a_duration = d\<rparr>\<rparr>]"
    if "\<not> truthy video_path" "ip \<noteq> []" "files w ip = Some (ImageData im)" "0 < im_height im"
    for ip im
    by (simp add: composer_image[OF a that] Let_def encoded_clips_simps)
  have blank: "encoded_clips (snd (create_video_with_voiceover audio_path video_path image_path out e w))
      = encoded_clips w @
                 [\<lparr>v_frames = Resized (Still (tmp_stem e @ lit ''.png'')
                                 \<lparr>im_width = 1280, im_height = 720, im_pixels = Fill 0 0 0\<rparr>)
                               1280 720,
                   v_duration = Some d, v_size = (1280, 720),
                   v_fps = None, v_audio = Some \<lparr>a_filename = audio_path, a_duration = d\<rparr>\<rparr>]"
    if "\<not> truthy video_path" "\<not> truthy image_path"
    by (simp add: composer_placeholder[OF a that] Let_def encoded_clips_simps)
  have video: "encoded_clips (snd (create_video_with_voiceover audio_path (Some vp) image_path out e w))
      = encoded_clips w @
                 [\<lparr>v_frames =
                     (if vd < d
                      then Cut (Chain (replicate (nat (\<lfloor>d / vd\<rfloor> + 1)) (Footage vp))) 0 d
                      else Cut (Footage vp) 0 d),
                   v_duration = Some d, v_size = (wd, ht),
                   v_fps = Some f, v_audio = Some \<lparr>a_filename = audio_path, a_duration = d\<rparr>\<rparr>]"
    if "vp \<noteq> []" "files w vp = Some (VideoData vd wd ht f)" "0 < vd" for vp vd wd ht f
  proof -
    have vd0: "0 \<le> vd" "vd < d \<Longrightarrow> 0 < vd" using that(3) by simp_all
    show ?thesis
      by (simp add: composer_video[OF a that(1,2) vd0] Let_def encoded_clips_simps)
  qed
  show ?thesis
    unfolding Let_def
    apply (intro conjI allI impI)
    subgoal for ip im using still[of ip im] by simp
    subgoal using blank by simp
    subgoal for vp vd wd ht f using video[of vp vd wd ht f] by simp
    done
qed

theorem resize_stills_only_witness:
  "map v_size (encoded_clips (snd (create_video_with_voiceover (lit ''voice.mp3'') None
       (Some (lit ''photo.png'')) (lit ''out.mp4'') studio disk))) = [(1440, 720)]
   \<and> map v_size (encoded_clips (snd (create_video_with_voiceover (lit ''voice.mp3'') None
       None (lit ''out.mp4'') studio disk))) = [(1280, 720)]
   \<and> map v_size (encoded_clips (snd (create_video_with_voiceover (lit ''voice.mp3'')
       (Some (lit ''long.mp4'')) None (lit ''out.mp4'') studio disk))) = [(1920, 1080)]"
  using resize_stills_only[of disk "lit ''voice.mp3''" 5 None "Some (lit ''photo.png'')" "lit ''out.mp4''" studio]
    resize_stills_only[of disk "lit ''voice.mp3''" 5 None None "lit ''out.mp4''" studio]
    resize_stills_only[of disk "lit ''voice.mp3''" 5 "Some (lit ''long.mp4'')" None "lit ''out.mp4''" studio]
  by (simp add: disk_def truthy_def encoded_clips_def Let_def)

text \<open>
  Claim C10, as stated: whenever both paths are given (neither is \<^verbatim>\<open>None\<close>), the video
  wins and the image is ignored. With the empty string as video path and an image path,
  the output is made from the image, and it changes when the image path is dropped.
\<close>

theorem empty_video_path_counterexample:
  "Some [] \<noteq> (None :: pystr option) \<and> Some (lit ''photo.png'') \<noteq> None
   \<and> map v_frames (encoded_clips (snd (create_video_with_voiceover (lit ''voice.mp3'') (Some [])
          (Some (lit ''photo.png'')) (lit ''out.mp4'') studio disk))) =
       [Resized (Still (lit ''photo.png'')
                   \<lparr>im_width = 1000, im_height = 500, im_pixels = Raster 1\<rparr>) 1440 720]
   \<and> map v_frames (encoded_clips (snd (create_video_with_voiceover (lit ''voice.mp3'') (Some [])
          None (lit ''out.mp4'') studio disk))) =
       [Resized (Still (lit ''/tmp/tmpimg.png'')
                   \<lparr>im_width = 1280, im_height = 720, im_pixels = Fill 0 0 0\<rparr>) 1280 720]"
proof -
  have a: "files disk (lit ''voice.mp3'') = Some (AudioData 5)" by (simp add: disk_def)
  have nv: "\<not> truthy (Some [])" by (simp add: truthy_def)
  have ni: "\<not> truthy None" by (simp add: truthy_def)
  have n: "lit ''photo.png'' \<noteq> []" by simp
  have i: "files disk (lit ''photo.png'') =
      Some (ImageData \<lparr>im_width = 1000, im_height = 500, im_pixels = Raster 1\<rparr>)"
    by (simp add: disk_def)
  have h: "0 < im_height \<lparr>im_width = 1000, im_height = 500, im_pixels = Raster 1\<rparr>" by simp
  show ?thesis
    by (simp add: composer_image[OF a nv n i h] composer_placeholder[OF a nv ni] Let_def
        studio_def encoded_clips_simps lit_append)
      (simp add: encoded_clips_def disk_def)
qed

text \<open>
  Claim C10. For every call whose video path is a non-empty string, the result is the one
  the same call gives without an image path: the video branch is taken and the image path
  is ignored entirely.
\<close>

theorem video_path_takes_precedence:
  assumes "vp \<noteq> []"
  shows "create_video_with_voiceover audio_path (Some vp) image_path out e w =
         create_video_with_voiceover audio_path (Some vp) None out e w"
proof (cases "AudioFileClip audio_path w")
  case (Pair r w1)
  then show ?thesis
    using assms by (cases r) (simp_all add: create_video_with_voiceover_def truthy_def Let_def)
qed

theorem video_path_takes_precedence_witness:
  "create_video_with_voiceover (lit ''voice.mp3'') (Some (lit ''clip.mp4'')) (Some (lit ''photo.png''))
      (lit ''out.mp4'') studio disk =
   create_video_with_voiceover (lit ''voice.mp3'') (Some (lit ''clip.mp4'')) None
      (lit ''out.mp4'') studio disk"
  using video_path_takes_precedence[of "lit ''clip.mp4''" "lit ''voice.mp3''" "Some (lit ''photo.png'')"
      "lit ''out.mp4''" studio disk]
  by simp

section \<open>The media composer: failures and handles\<close>

text \<open>
  Claim C8. A composition request whose audio has zero duration makes the composer raise:
  the composer hands the library a clip of zero duration, which the encoder refuses. An
  unreadable audio file, an unreadable visual source and an encoder that refuses the clip
  it is handed make the composer raise as well. After a raise the caller treats the run as
  having produced nothing: a run of the form handler that ends in an error shows no success
  message, no video and no download, and a run on a text that is not blank ends normally
  only after the encoder has accepted a clip of that run.
\<close>

theorem failures_propagate:
  "let run = create_video_with_voiceover audio_path video_path image_path out e w;
       page = generate_video_handler True text_input voice rate pitch upl e w
   in (files w audio_path = Some (AudioData 0) \<and> refuses_zero_length e \<longrightarrow> isl (fst run))
    \<and> ((\<forall>d. files w audio_path \<noteq> Some (AudioData d)) \<longrightarrow> run = (Inl (IOError audio_path), w))
    \<and> (truthy video_path \<and> (\<forall>vd wd ht f. files w (the video_path) \<noteq> Some (VideoData vd wd ht f))
          \<longrightarrow> isl (fst run))
    \<and> (\<not> truthy video_path \<and> truthy image_path
          \<and> (\<forall>im. files w (the image_path) \<noteq> Some (ImageData im)) \<longrightarrow> isl (fst run))
    \<and> ((\<exists>clip\<in>set (handed_to_encoder w (snd run)). \<not> encoder_ok e clip)
          \<longrightarrow> fst run = Inl EncoderError)
    \<and> (isl (fst page) \<longrightarrow> filter is_ui (trace (snd page)) = filter is_ui (trace w))
    \<and> (\<not> isl (fst page) \<and> (\<exists>c\<in>set text_input. \<not> isspace c)
          \<longrightarrow> (\<exists>clip\<in>set (handed_to_encoder w (snd page)). encoder_ok e clip))"
proof -
  let ?run = "create_video_with_voiceover audio_path video_path image_path out e w"
  let ?page = "generate_video_handler True text_input voice rate pitch upl e w"
  have silent: "isl (fst ?run)"
    if "files w audio_path = Some (AudioData 0)" "refuses_zero_length e"
  proof (cases rule: composer_outcome[of audio_path video_path image_path out e w])
    case (raised err evs)
    then show ?thesis by simp
  next
    case (returned d clip fps evs)
    from returned(2) that(1) have "d = 0" by simp
    with returned(3) have "v_duration clip = Some 0" by simp
    with that(2) have "\<not> encoder_ok e clip" by (simp add: refuses_zero_length_def)
    with returned(4) show ?thesis by simp
  qed
  have audio: "?run = (Inl (IOError audio_path), w)"
    if "\<forall>d. files w audio_path \<noteq> Some (AudioData d)"
    by (rule composer_audio_unreadable[OF that])
  have video: "isl (fst ?run)"
    if "truthy video_path" "\<forall>vd wd ht f. files w (the video_path) \<noteq> Some (VideoData vd wd ht f)"
  proof (cases "\<exists>d. files w audio_path = Some (AudioData d)")
    case True
    then obtain d where a: "files w audio_path = Some (AudioData d)" by blast
    from that(1) obtain vp where vp: "video_path = Some vp" "vp \<noteq> []" by (rule truthyE)
    show ?thesis
      using that(2) unfolding vp(1) by (simp add: composer_video_unreadable[OF a vp(2)])
  next
    case False
    then show ?thesis by (simp add: composer_audio_unreadable)
  qed
  have image: "isl (fst ?run)"
    if "\<not> truthy video_path" "truthy image_path"
      "\<forall>im. files w (the image_path) \<noteq> Some (ImageData im)"
  proof (cases "\<exists>d. files w audio_path = Some (AudioData d)")
    case True
    then obtain d where a: "files w audio_path = Some (AudioData d)" by blast
    from that(2) obtain ip where ip: "image_path = Some ip" "ip \<noteq> []" by (rule truthyE)
    show ?thesis
      using that(3) unfolding ip(1) by (simp add: composer_image_unreadable[OF a that(1) ip(2)])
  next
    case False
    then show ?thesis by (simp add: composer_audio_unreadable)
  qed
  have encoder: "fst ?run = Inl EncoderError"
    if r: "\<exists>clip\<in>set (handed_to_encoder w (snd ?run)). \<not> encoder_ok e clip"
  proof (cases rule: composer_outcome[of audio_path video_path image_path out e w])
    case (raised err evs)
    from r obtain clip where
      "clip \<in> set [c. WriteVideofile p c f vc ac \<leftarrow> evs]"
      unfolding handed_trace[OF raised(2)] by blast
    with raised(4) have "err = EncoderError" by blast
    with raised(1) show ?thesis by simp
  next
    case (returned d clip fps evs)
    have "handed_to_encoder w (snd ?run) = [clip]"
      unfolding handed_trace[OF returned(5)] using returned(7) by simp
    with r returned(4) show ?thesis by simp
  qed
  have shown: "filter is_ui (trace (snd ?page)) = filter is_ui (trace w)" if err: "isl (fst ?page)"
  proof (cases "\<exists>c\<in>set text_input. \<not> isspace c")
    case False
    then have "fst ?page = Inr ()" by (simp add: handler_blank)
    then show ?thesis using err by simp
  next
    case True
    then show ?thesis
    proof (cases rule: handler_outcome[of text_input voice rate pitch upl e w])
      case (raised err comm evs)
      then show ?thesis by simp
    next
      case (returned comm evs out clip fps d)
      then show ?thesis using err by simp
    qed
  qed
  have encoded: "\<exists>clip\<in>set (handed_to_encoder w (snd ?page)). encoder_ok e clip"
    if ok: "\<not> isl (fst ?page)" and nb: "\<exists>c\<in>set text_input. \<not> isspace c"
    using nb
  proof (cases rule: handler_outcome[of text_input voice rate pitch upl e w])
    case (raised err comm evs)
    then show ?thesis using ok by simp
  next
    case (returned comm evs out clip fps d)
    have "clip \<in> set (handed_to_encoder w (snd ?page))"
      unfolding handed_trace[OF returned(5)] by simp
    then show ?thesis using returned(4) by blast
  qed
  show ?thesis
    unfolding Let_def using silent audio video image encoder shown encoded by blast
qed

theorem failures_propagate_witness:
  "isl (fst (create_video_with_voiceover (lit ''silence.mp3'') None None (lit ''out.mp4'')
                 studio disk))
   \<and> isl (fst (create_video_with_voiceover (lit ''silence.mp3'') (Some (lit ''clip.mp4'')) None
                 (lit ''out.mp4'') studio disk))
   \<and> create_video_with_voiceover (lit ''nothing.mp3'') None None (lit ''out.mp4'') studio disk
        = (Inl (IOError (lit ''nothing.mp3'')), disk)
   \<and> isl (fst (create_video_with_voiceover (lit ''voice.mp3'') (Some (lit ''missing.mp4'')) None
                 (lit ''out.mp4'') studio disk))
   \<and> isl (fst (create_video_with_voiceover (lit ''voice.mp3'') None (Some (lit ''missing.png''))
                 (lit ''out.mp4'') studio disk))
   \<and> fst (create_video_with_voiceover (lit ''voice.mp3'') None None (lit ''out.mp4'')
             (studio\<lparr>encoder_ok := \<lambda>c. v_size c \<noteq> (1280, 720)\<rparr>) disk) = Inl EncoderError
   \<and> filter is_ui (trace (snd (generate_video_handler True [104, 105] (lit ''en-US-GuyNeural'') 0 0
                 None (studio\<lparr>tts_service := \<lambda>c. Some 0\<rparr>) disk))) = []
   \<and> (\<exists>clip\<in>set (handed_to_encoder disk (snd (generate_video_handler True [104, 105]
                 (lit ''en-US-GuyNeural'') 0 0 None studio disk))). v_duration clip \<noteq> Some 0)"
proof -
  let ?picky = "studio\<lparr>encoder_ok := \<lambda>c. v_size c \<noteq> (1280, 720)\<rparr>"
  let ?mute = "studio\<lparr>tts_service := \<lambda>c. Some 0\<rparr>"
  let ?guy = "lit ''en-US-GuyNeural''"
  let ?out = "lit ''out.mp4''"
  have nb: "\<exists>c\<in>set [104, 105]. \<not> isspace c" by (simp add: isspace_def)
  have bad: "isl (fst (generate_video_handler True [104, 105] ?guy 0 0 None ?mute disk))"
    by (simp add: handler_placeholder_run[OF nb, of _ 0] studio_def)
  have good: "\<not> isl (fst (generate_video_handler True [104, 105] ?guy 0 0 None studio disk))"
    by (simp add: handler_placeholder_run[OF nb, of _ 5] studio_def)
  have t: "trace disk = []" by (simp add: disk_def)
  have z: "refuses_zero_length studio" by (simp add: refuses_zero_length_def studio_def)
  have a: "files disk (lit ''voice.mp3'') = Some (AudioData 5)" by (simp add: disk_def)
  have n: "\<not> truthy None" by (simp add: truthy_def)
  have refused: "\<exists>clip\<in>set (handed_to_encoder disk (snd (create_video_with_voiceover
           (lit ''voice.mp3'') None None ?out ?picky disk))). \<not> encoder_ok ?picky clip"
    by (simp add: composer_placeholder[OF a n n] Let_def handed_to_encoder_def
        encoded_clips_simps studio_def)
  show ?thesis
    using
      failures_propagate[of "lit ''silence.mp3''" None None ?out studio disk
        "[104, 105]" ?guy 0 0 None]
      failures_propagate[of "lit ''silence.mp3''" "Some (lit ''clip.mp4'')" None ?out studio disk
        "[104, 105]" ?guy 0 0 None]
      failures_propagate[of "lit ''nothing.mp3''" None None ?out studio disk
        "[104, 105]" ?guy 0 0 None]
      failures_propagate[of "lit ''voice.mp3''" "Some (lit ''missing.mp4'')" None ?out studio disk
        "[104, 105]" ?guy 0 0 None]
      failures_propagate[of "lit ''voice.mp3''" None "Some (lit ''missing.png'')" ?out studio disk
        "[104, 105]" ?guy 0 0 None]
      failures_propagate[of "lit ''voice.mp3''" None None ?out ?picky disk
        "[104, 105]" ?guy 0 0 None]
      failures_propagate[of "lit ''silence.mp3''" None None ?out ?mute disk
        "[104, 105]" ?guy 0 0 None]
    unfolding Let_def
    apply (simp only: bad good t nb z refused simp_thms filter.simps)
    apply (simp add: truthy_def)
    apply (simp add: disk_def studio_def)
    done
qed

text \<open>
  Claim C9. Every handle the composer opens is to be released, on the success path and on
  every failure path. The composer does so when the supplied video is at least as long as
  the audio. It does not when a call raises: with a video file that cannot be opened, the
  audio clip opened before it is never closed. It does not either when a shorter video is
  looped: \<^verbatim>\<open>close()\<close> then reaches the concatenation, and the video file opened for it
  stays open.
\<close>

theorem handles_left_open:
  "fst (create_video_with_voiceover (lit ''voice.mp3'') (Some (lit ''missing.mp4'')) None
          (lit ''out.mp4'') studio disk) = Inl (IOError (lit ''missing.mp4''))
   \<and> leaked (trace (snd (create_video_with_voiceover (lit ''voice.mp3'') (Some (lit ''missing.mp4''))
          None (lit ''out.mp4'') studio disk))) = [AudioHandle (lit ''voice.mp3'')]
   \<and> fst (create_video_with_voiceover (lit ''voice.mp3'') (Some (lit ''clip.mp4'')) None
          (lit ''out.mp4'') studio disk) = Inr (lit ''out.mp4'', 5)
   \<and> leaked (trace (snd (create_video_with_voiceover (lit ''voice.mp3'') (Some (lit ''clip.mp4''))
          None (lit ''out.mp4'') studio disk))) = [VideoHandle (lit ''clip.mp4'')]
   \<and> fst (create_video_with_voiceover (lit ''voice.mp3'') (Some (lit ''long.mp4'')) None
          (lit ''out.mp4'') studio disk) = Inr (lit ''out.mp4'', 5)
   \<and> all_released (trace (snd (create_video_with_voiceover (lit ''voice.mp3'')
          (Some (lit ''long.mp4'')) None (lit ''out.mp4'') studio disk)))"
proof -
  have a: "files disk (lit ''voice.mp3'') = Some (AudioData 5)" by (simp add: disk_def)
  have n: "lit ''missing.mp4'' \<noteq> []" "lit ''clip.mp4'' \<noteq> []" "lit ''long.mp4'' \<noteq> []"
    by simp_all
  have m: "\<forall>vd wd ht f. files disk (lit ''missing.mp4'') \<noteq> Some (VideoData vd wd ht f)"
    by (simp add: disk_def)
  have c: "files disk (lit ''clip.mp4'') = Some (VideoData 2 640 480 30)" by (simp add: disk_def)
  have l: "files disk (lit ''long.mp4'') = Some (VideoData 8 1920 1080 25)" by (simp add: disk_def)
  have pc: "(0::real) \<le> 2" "(2::real) < 5 \<Longrightarrow> (0::real) < 2" by simp_all
  have pl: "(0::real) \<le> 8" "(8::real) < 5 \<Longrightarrow> (0::real) < 8" by simp_all
  have t: "trace disk = []" by (simp add: disk_def)
  show ?thesis
    by (simp add: composer_video_unreadable[OF a n(1) m] composer_video[OF a n(2) c pc]
        composer_video[OF a n(3) l pl] Let_def trace_simps all_released_def t studio_def
        eval_nat_numeral)
qed

section \<open>The speech synthesis adapter: the request\<close>

text \<open>
  Claim C4. Every call of \<^verbatim>\<open>synthesize_tts\<close> sends exactly one request, for the chosen
  voice. With rate and pitch both zero its text is the narration text as it is. Otherwise
  it is the SSML envelope: a \<^verbatim>\<open>speak\<close> element, inside it a \<^verbatim>\<open>voice\<close> element naming
  the chosen voice, inside it a \<^verbatim>\<open>prosody\<close> element around the text, with a \<^verbatim>\<open>rate\<close>
  attribute exactly when the rate is not zero and a \<^verbatim>\<open>pitch\<close> attribute exactly when
  the pitch is not zero, each the number followed by a percent sign.
\<close>

theorem synthesis_request:
  \<open>trace (snd (synthesize_tts text voice out rate_pct pitch_pct e w)) =
     trace w @
     [Save \<lparr>c_text =
              (if rate_pct = 0 \<and> pitch_pct = 0 then text
               else lit ''<speak version="1.0" xmlns="http://www.w3.org/2001/10/synthesis"><voice name="''
                    @ voice @ lit ''"><prosody''
                    @ (if rate_pct \<noteq> 0 then lit '' rate="'' @ str_int rate_pct @ lit ''%"'' else [])
                    @ (if pitch_pct \<noteq> 0 then lit '' pitch="'' @ str_int pitch_pct @ lit ''%"'' else [])
                    @ lit ''>'' @ text @ lit ''</prosody></voice></speak>''),
            c_voice = voice\<rparr> out]\<close>
  by (simp add: synthesize_tts_def synthesize_def Communicate_def trace_save Let_def lit_def)

theorem synthesis_request_witness:
  \<open>trace (snd (synthesize_tts (lit ''hi'') (lit ''en-GB-RyanNeural'') (lit ''voice.mp3'') 5 (- 10) studio disk)) =
     [Save \<lparr>c_text = lit ''<speak version="1.0" xmlns="http://www.w3.org/2001/10/synthesis"><voice name="en-GB-RyanNeural"><prosody rate="5%" pitch="-10%">hi</prosody></voice></speak>'',
            c_voice = lit ''en-GB-RyanNeural''\<rparr> (lit ''voice.mp3'')]
   \<and> trace (snd (synthesize_tts (lit ''hi'') (lit ''en-GB-RyanNeural'') (lit ''voice.mp3'') 0 0 studio disk)) =
     [Save \<lparr>c_text = lit ''hi'', c_voice = lit ''en-GB-RyanNeural''\<rparr> (lit ''voice.mp3'')]\<close>
  using synthesis_request[of "lit ''hi''" "lit ''en-GB-RyanNeural''" "lit ''voice.mp3''" 5 "- 10" studio disk]
    synthesis_request[of "lit ''hi''" "lit ''en-GB-RyanNeural''" "lit ''voice.mp3''" 0 0 studio disk]
  by (simp add: str_int_examples lit_append disk_def)

section \<open>The form handler: blank text\<close>

text \<open>
  Claim C7. When the narration text is empty or made of whitespace only, the handler
  reports the input error and makes no synthesis call: the error message is the only event
  of the run. For every other text the run starts with the synthesis call.
\<close>

theorem blank_text_rejected:
  "let run = generate_video_handler True text_input voice rate pitch upl e w;
       audio_file = path_join (tmp_dir e) (lit ''voice.mp3'')
   in ((\<forall>c\<in>set text_input. isspace c) \<longrightarrow>
         run = (Inr (), emit (StError (lit ''Please enter some text.'')) w)
         \<and> filter is_save (trace (snd run)) = filter is_save (trace w))
    \<and> ((\<exists>c\<in>set text_input. \<not> isspace c) \<longrightarrow>
         (\<exists>evs. trace (snd run) =
                  trace (snd (synthesize_tts text_input voice audio_file rate pitch e w)) @ evs))"
proof -
  have blank: "generate_video_handler True text_input voice rate pitch upl e w
                 = (Inr (), emit (StError (lit ''Please enter some text.'')) w)
      \<and> filter is_save (trace (snd (generate_video_handler True text_input voice rate pitch upl e w)))
          = filter is_save (trace w)"
    if "\<forall>c\<in>set text_input. isspace c"
    by (simp add: handler_blank[OF that] trace_simps)
  have proceed: "\<exists>evs. trace (snd (generate_video_handler True text_input voice rate pitch upl e w)) =
      trace (snd (synthesize_tts text_input voice (path_join (tmp_dir e) (lit ''voice.mp3''))
                    rate pitch e w)) @ evs"
    if nb: "\<exists>c\<in>set text_input. \<not> isspace c"
    using nb
  proof (cases rule: handler_outcome[of text_input voice rate pitch upl e w])
    case (raised err comm evs)
    then show ?thesis by (simp add: trace_save)
  next
    case (returned comm evs out clip fps d)
    then show ?thesis by (simp add: trace_save)
  qed
  show ?thesis
    unfolding Let_def using blank proceed by blast
qed

theorem blank_text_rejected_witness:
  "generate_video_handler True [32, 10, 12288] (lit ''en-US-GuyNeural'') 0 0 None studio disk
      = (Inr (), emit (StError (lit ''Please enter some text.'')) disk)
   \<and> (\<exists>evs. trace (snd (generate_video_handler True [104, 105] (lit ''en-US-GuyNeural'') 0 0 None
                           studio disk)) =
         Save \<lparr>c_text = [104, 105], c_voice = lit ''en-US-GuyNeural''\<rparr> (lit ''/tmp/req/voice.mp3'')
           # evs)"
  using blank_text_rejected[of "[32, 10, 12288]" "lit ''en-US-GuyNeural''" 0 0 None studio disk]
    blank_text_rejected[of "[104, 105]" "lit ''en-US-GuyNeural''" 0 0 None studio disk]
  by (simp add: Let_def isspace_examples synthesize_tts_def synthesize_def Communicate_def
      trace_save path_join_def studio_def lit_append)
    (simp add: disk_def)

end
